theory Spec2Isabelle
  imports Main "HOL-Library.Sublist"
begin

section \<open>Strings and paths as the worker uses them\<close>

text \<open>
  File names and messages are \<^typ>\<open>string\<close>s of ASCII characters. The worker calls four
  library functions on them: \<^verbatim>\<open>str.lower\<close>, \<^verbatim>\<open>str.endswith\<close> with a tuple,
  \<^verbatim>\<open>os.path.splitext\<close> and \<^verbatim>\<open>os.path.join\<close>. They are embedded here as the POSIX
  flavour of the Python library defines them.
\<close>

definition lower_char :: "char \<Rightarrow> char" where
  "lower_char c =
     (let n = (of_char c :: nat) in if 65 \<le> n \<and> n \<le> 90 then char_of (n + 32) else c)"

definition lower :: "string \<Rightarrow> string" where
  "lower s = map lower_char s"

definition endswith :: "string \<Rightarrow> string \<Rightarrow> bool" where
  "endswith s suf = (length suf \<le> length s \<and> drop (length s - length suf) s = suf)"

definition startswith :: "string \<Rightarrow> string \<Rightarrow> bool" where
  "startswith s pre = (take (length pre) s = pre)"

definition endswith_any :: "string \<Rightarrow> string list \<Rightarrow> bool" where
  "endswith_any s sufs = list_ex (endswith s) sufs"

text \<open>\<^verbatim>\<open>str.rfind\<close> for a single character: the highest index holding it, or -1.\<close>

fun rfind_aux :: "char \<Rightarrow> string \<Rightarrow> nat \<Rightarrow> int \<Rightarrow> int" where
  "rfind_aux c [] i acc = acc"
| "rfind_aux c (x # xs) i acc = rfind_aux c xs (Suc i) (if x = c then int i else acc)"

definition rfind :: "string \<Rightarrow> char \<Rightarrow> int" where
  "rfind p c = rfind_aux c p 0 (- 1)"

definition sep :: char where
  "sep = CHR ''/''"

definition extsep :: char where
  "extsep = CHR ''.''"

text \<open>
  \<^verbatim>\<open>genericpath._splitext\<close>: the extension starts at the last dot after the last
  separator, unless only dots stand between that separator and the dot. The inner loop
  skips the leading dots; it answers at the first character that is not a dot.
\<close>

function skip_leading_dots :: "string \<Rightarrow> nat \<Rightarrow> nat \<Rightarrow> (string \<times> string) option" where
  "skip_leading_dots p filenameIndex dotIndex =
     (if filenameIndex < dotIndex
      then (if take 1 (drop filenameIndex p) \<noteq> [extsep]
            then Some (take dotIndex p, drop dotIndex p)
            else skip_leading_dots p (Suc filenameIndex) dotIndex)
      else None)"
  by pat_completeness auto
termination
  by (relation "measure (\<lambda>(p, filenameIndex, dotIndex). dotIndex - filenameIndex)") auto

declare skip_leading_dots.simps [simp del]

definition splitext_generic :: "string \<Rightarrow> char \<Rightarrow> char option \<Rightarrow> string \<times> string" where
  "splitext_generic p sp altsep =
     (let sepIndex = (case altsep of
                        None \<Rightarrow> rfind p sp
                      | Some a \<Rightarrow> max (rfind p sp) (rfind p a));
          dotIndex = rfind p extsep
      in if dotIndex > sepIndex
         then (case skip_leading_dots p (nat (sepIndex + 1)) (nat dotIndex) of
                 Some r \<Rightarrow> r
               | None \<Rightarrow> (p, []))
         else (p, []))"

definition splitext :: "string \<Rightarrow> string \<times> string" where
  "splitext p = splitext_generic p sep None"

text \<open>\<^verbatim>\<open>posixpath.join\<close> with one component after the directory.\<close>

definition path_join :: "string \<Rightarrow> string \<Rightarrow> string" where
  "path_join a b =
     (if startswith b [sep] then b
      else if a = [] \<or> endswith a [sep] then a @ b
      else a @ [sep] @ b)"




section \<open>The worker's candidate selection\<close>

definition video_extensions :: "string list" where
  "video_extensions = [''.mp4'', ''.mkv'', ''.avi'', ''.mov'', ''.webm'', ''.flv'', ''.wmv'']"

definition is_video :: "string \<Rightarrow> bool" where
  "is_video filename = endswith_any (lower filename) video_extensions"

text \<open>
  The first pass of \<^verbatim>\<open>run\<close>: one loop over the listing that appends to
  \<^verbatim>\<open>video_files\<close> and counts in \<^verbatim>\<open>total_videos\<close>.
\<close>

fun first_pass :: "string list \<Rightarrow> string list \<Rightarrow> nat \<Rightarrow> string list \<times> nat" where
  "first_pass [] video_files total_videos = (video_files, total_videos)"
| "first_pass (filename # rest) video_files total_videos =
     (if is_video filename
      then first_pass rest (video_files @ [filename]) (total_videos + 1)
      else first_pass rest video_files total_videos)"

definition output_filename :: "string \<Rightarrow> string" where
  "output_filename filename = fst (splitext filename) @ ''.gif''"

definition input_path :: "string \<Rightarrow> string \<Rightarrow> string" where
  "input_path directory_path filename = path_join directory_path filename"

definition output_path :: "string \<Rightarrow> string \<Rightarrow> string" where
  "output_path directory_path filename = path_join directory_path (output_filename filename)"

section \<open>The conversion worker\<close>

text \<open>
  The worker talks to the operating system in two ways: it lists a directory and it starts
  processes. The environment answers both. The start of a process has one of three
  outcomes. The program runs to an exit status, and its captured output either decodes as
  text (then the captured standard error is given) or does not. Or no program of that
  name is found. Or the program is found but the system refuses to run it, as for a file
  without the permission to execute. The first argument of \<open>spawn\<close> counts the processes
  started earlier in the same run, so that the same command may fare differently later in
  the run. The directory is taken to exist and to be readable, as the worker takes it.
\<close>

datatype proc_outcome = Exited int "string option" | NotFound | CannotExecute

record os_env =
  listdir :: "string \<Rightarrow> string list"
  spawn :: "nat \<Rightarrow> string list \<Rightarrow> proc_outcome"

datatype error =
    CalledProcessError string
  | FileNotFoundError
  | PermissionError
  | UnicodeDecodeError

text \<open>
  \<^verbatim>\<open>subprocess.run(..., capture_output=True, text=True, check=True)\<close>: the start may
  fail, then the captured output is decoded, then the exit status is checked.
\<close>

definition subprocess_run :: "proc_outcome \<Rightarrow> error + unit" where
  "subprocess_run out =
     (case out of
        NotFound \<Rightarrow> Inl FileNotFoundError
      | CannotExecute \<Rightarrow> Inl PermissionError
      | Exited returncode None \<Rightarrow> Inl UnicodeDecodeError
      | Exited returncode (Some stderr) \<Rightarrow>
          if returncode \<noteq> 0 then Inl (CalledProcessError stderr) else Inr ())"

text \<open>The three signals of the worker, and everything a run does that is seen outside.\<close>

datatype event =
    progress_update string
  | conversion_finished string
  | conversion_error string

datatype action = Emit event | Listdir string | Subprocess "string list"

text \<open>Decimal digits of a number, as an f-string prints it.\<close>

fun str_nat :: "nat \<Rightarrow> string" where
  "str_nat n =
     (if n < 10 then [char_of (48 + n)]
      else str_nat (n div 10) @ [char_of (48 + n mod 10)])"

declare str_nat.simps [simp del]

definition version_command :: "string list" where
  "version_command = [''ffmpeg'', ''-version'']"

text \<open>
  \<^verbatim>\<open>_is_ffmpeg_installed\<close> catches two exceptions of the version query; any other
  one leaves the function uncaught.
\<close>

definition is_ffmpeg_installed :: "os_env \<Rightarrow> error + bool" where
  "is_ffmpeg_installed env =
     (case subprocess_run (spawn env 0 version_command) of
        Inr _ \<Rightarrow> Inr True
      | Inl (CalledProcessError _) \<Rightarrow> Inr False
      | Inl FileNotFoundError \<Rightarrow> Inr False
      | Inl PermissionError \<Rightarrow> Inl PermissionError
      | Inl UnicodeDecodeError \<Rightarrow> Inl UnicodeDecodeError)"

definition ffmpeg_command :: "string \<Rightarrow> string \<Rightarrow> string list" where
  "ffmpeg_command directory_path filename =
     [''ffmpeg'',
      ''-i'', input_path directory_path filename,
      ''-vf'', ''fps=10,scale=320:-1:flags=lanczos'',
      ''-y'',
      output_path directory_path filename]"

text \<open>
  How the body of the second loop, and the loop itself, can end: by going on to what
  comes next, by the \<^verbatim>\<open>return\<close> statement, or by an exception that nothing catches.
\<close>

datatype flow = Proceed | Return | Raise error

text \<open>
  The body of the second loop for the candidate at position \<open>i\<close>: the actions it
  performs, the new value of \<^verbatim>\<open>converted_count\<close>, and how it ends. The version query
  was process 0, so this is process \<open>i + 1\<close>. The character \<open>CHR 0x27\<close> is the single
  quote that the messages put around file names.
\<close>

definition convert_file ::
  "os_env \<Rightarrow> string \<Rightarrow> nat \<Rightarrow> nat \<Rightarrow> string \<Rightarrow> nat \<Rightarrow> action list \<times> nat \<times> flow" where
  "convert_file env directory_path total_videos i filename converted_count =
     (let command = ffmpeg_command directory_path filename;
          started =
            [Emit (progress_update (''Converting '' @ [CHR 0x27] @ filename @ [CHR 0x27] @
                     '' ('' @ str_nat (i + 1) @ ''/'' @ str_nat total_videos @ '')...'')),
             Subprocess command]
      in case subprocess_run (spawn env (Suc i) command) of
           Inr _ \<Rightarrow>
             (started @
              [Emit (progress_update (''Successfully converted '' @
                       [CHR 0x27] @ filename @ [CHR 0x27] @ '' to '' @
                       [CHR 0x27] @ output_filename filename @ [CHR 0x27] @ ''.''))],
              converted_count + 1, Proceed)
         | Inl (CalledProcessError stderr) \<Rightarrow>
             (started @
              [Emit (progress_update (''Error converting '' @
                       [CHR 0x27] @ filename @ [CHR 0x27] @ '': '' @ stderr)),
               Emit (conversion_error (''Failed to convert '' @
                       [CHR 0x27] @ filename @ [CHR 0x27] @ ''. Error: '' @ stderr))],
              converted_count, Proceed)
         | Inl FileNotFoundError \<Rightarrow>
             (started @
              [Emit (conversion_error
                 ''FFmpeg command not found. Please ensure FFmpeg is installed and in your PATH.'')],
              converted_count, Return)
         | Inl PermissionError \<Rightarrow> (started, converted_count, Raise PermissionError)
         | Inl UnicodeDecodeError \<Rightarrow> (started, converted_count, Raise UnicodeDecodeError))"

text \<open>
  The second loop over \<^verbatim>\<open>enumerate(video_files)\<close>: the actions, the final
  \<^verbatim>\<open>converted_count\<close>, and how the loop ends (\<open>Proceed\<close> when it ran to its end).
\<close>

fun convert_loop ::
  "os_env \<Rightarrow> string \<Rightarrow> nat \<Rightarrow> (nat \<times> string) list \<Rightarrow> nat \<Rightarrow> action list \<times> nat \<times> flow" where
  "convert_loop env directory_path total_videos [] converted_count =
     ([], converted_count, Proceed)"
| "convert_loop env directory_path total_videos ((i, filename) # rest) converted_count =
     (case convert_file env directory_path total_videos i filename converted_count of
        (acts, c, Proceed) \<Rightarrow>
          (case convert_loop env directory_path total_videos rest c of
             (tr, c', fl) \<Rightarrow> (acts @ tr, c', fl))
      | (acts, c, Return) \<Rightarrow> (acts, c, Return)
      | (acts, c, Raise e) \<Rightarrow> (acts, c, Raise e))"

text \<open>
  A run that has ended: its actions in order, the locals \<^verbatim>\<open>converted_count\<close> and
  \<^verbatim>\<open>total_videos\<close> at its end (\<open>None\<close> where \<^verbatim>\<open>run\<close> ends before it assigns them),
  and the exception that left \<^verbatim>\<open>run\<close> uncaught, if one did.
\<close>

record run_result =
  trace :: "action list"
  counters :: "(nat \<times> nat) option"
  uncaught :: "error option"

definition run :: "os_env \<Rightarrow> string \<Rightarrow> run_result" where
  "run env directory_path =
     (case is_ffmpeg_installed env of
        Inl e \<Rightarrow> \<lparr>trace = [Subprocess version_command], counters = None, uncaught = Some e\<rparr>
      | Inr installed \<Rightarrow>
          if \<not> installed
          then \<lparr>trace =
                  [Subprocess version_command,
                   Emit (conversion_error
                     (''FFmpeg is not installed or not in your system's PATH.'' @ [CHR 0x0A] @
                      ''Please install FFmpeg to use this converter.''))],
                counters = None, uncaught = None\<rparr>
          else
            (case first_pass (listdir env directory_path) [] 0 of
               (video_files, total_videos) \<Rightarrow>
                 if total_videos = 0
                 then \<lparr>trace =
                         [Subprocess version_command, Listdir directory_path,
                          Emit (progress_update
                            ''No video files found in the selected directory.''),
                          Emit (conversion_finished
                            ''Conversion process completed (no videos to convert).'')],
                       counters = Some (0, total_videos), uncaught = None\<rparr>
                 else
                   (case convert_loop env directory_path total_videos
                           (enumerate 0 video_files) 0 of
                      (tr, converted_count, fl) \<Rightarrow>
                        \<lparr>trace =
                           [Subprocess version_command, Listdir directory_path,
                            Emit (progress_update (''Found '' @ str_nat total_videos @
                                    '' video(s). Starting conversion...''))] @
                           tr @
                           (case fl of
                              Proceed \<Rightarrow>
                                [Emit (conversion_finished
                                   (''Conversion process completed. Converted '' @
                                    str_nat converted_count @ '' of '' @
                                    str_nat total_videos @ '' videos.''))]
                            | Return \<Rightarrow> []
                            | Raise e \<Rightarrow> []),
                         counters = Some (converted_count, total_videos),
                         uncaught = (case fl of
                                       Proceed \<Rightarrow> None
                                     | Return \<Rightarrow> None
                                     | Raise e \<Rightarrow> Some e)\<rparr>)))"

text \<open>What a trace shows: the events in order, and the conversion processes started.\<close>

fun events :: "action list \<Rightarrow> event list" where
  "events [] = []"
| "events (Emit e # as) = e # events as"
| "events (a # as) = events as"

fun conversions :: "action list \<Rightarrow> string list list" where
  "conversions [] = []"
| "conversions (Subprocess c # as) =
     (if c = version_command then conversions as else c # conversions as)"
| "conversions (a # as) = conversions as"

fun is_progress :: "event \<Rightarrow> bool" where
  "is_progress (progress_update m) = True"
| "is_progress e = False"

fun is_finished :: "event \<Rightarrow> bool" where
  "is_finished (conversion_finished m) = True"
| "is_finished e = False"

fun is_error :: "event \<Rightarrow> bool" where
  "is_error (conversion_error m) = True"
| "is_error e = False"

text \<open>
  Names for the hypotheses of the theorems: the candidate list of a run, what the
  operating system answers when the run starts the converter for the candidate at
  position \<open>i\<close>, whether that answer is an exit status with output that decodes as
  text, and whether it counts as a conversion.
\<close>

definition candidates :: "os_env \<Rightarrow> string \<Rightarrow> string list" where
  "candidates env directory_path = fst (first_pass (listdir env directory_path) [] 0)"

definition conversion_outcome :: "os_env \<Rightarrow> string \<Rightarrow> nat \<Rightarrow> proc_outcome" where
  "conversion_outcome env directory_path i =
     spawn env (Suc i) (ffmpeg_command directory_path (candidates env directory_path ! i))"

fun returns_status :: "proc_outcome \<Rightarrow> bool" where
  "returns_status (Exited returncode (Some stderr)) = True"
| "returns_status out = False"

fun succeeded :: "proc_outcome \<Rightarrow> bool" where
  "succeeded (Exited returncode (Some stderr)) = (returncode = 0)"
| "succeeded out = False"

definition file_outcome :: "os_env \<Rightarrow> string \<Rightarrow> nat \<times> string \<Rightarrow> proc_outcome" where
  "file_outcome env d item = spawn env (Suc (fst item)) (ffmpeg_command d (snd item))"

definition file_actions :: "os_env \<Rightarrow> string \<Rightarrow> nat \<Rightarrow> nat \<times> string \<Rightarrow> action list" where
  "file_actions env d tot item = fst (convert_file env d tot (fst item) (snd item) 0)"

text \<open>The number of candidates of a run whose converter process exits with status zero.\<close>

definition succeeded_count :: "os_env \<Rightarrow> string \<Rightarrow> nat" where
  "succeeded_count env d =
     length (filter (\<lambda>i. succeeded (conversion_outcome env d i))
               [0..<length (candidates env d)])"

text \<open>The texts of the events that the theorems name.\<close>

definition not_installed_message :: string where
  "not_installed_message =
     ''FFmpeg is not installed or not in your system's PATH.'' @ [CHR 0x0A] @
     ''Please install FFmpeg to use this converter.''"

definition not_found_message :: string where
  "not_found_message =
     ''FFmpeg command not found. Please ensure FFmpeg is installed and in your PATH.''"

definition completed_message :: "nat \<Rightarrow> nat \<Rightarrow> string" where
  "completed_message x y =
     ''Conversion process completed. Converted '' @ str_nat x @ '' of '' @ str_nat y @
     '' videos.''"

text \<open>The environments on which the theorems are tried.\<close>

definition all_succeed_env :: os_env where
  "all_succeed_env =
     \<lparr>listdir = (\<lambda>d. [''clip.MP4'', ''notes.txt'', ''b.mkv'']),
      spawn = (\<lambda>t command. Exited 0 (Some []))\<rparr>"


definition vanishing_env :: os_env where
  "vanishing_env =
     \<lparr>listdir = (\<lambda>d. [''a.mp4'', ''b.avi'', ''c.mov'']),
      spawn = (\<lambda>t command. if t = 2 then NotFound else Exited 0 (Some []))\<rparr>"





section \<open>The application shell\<close>

text \<open>
  The widgets of the window that the handlers read or write, the message boxes shown so
  far, and the two things that live beside the interactive thread: the worker threads that
  have been started and have not returned (each with the actions it has yet to perform),
  and the queue of signals emitted by workers and not yet handled by the window.
\<close>

record app =
  directory_path :: string
  path_display :: string
  browse_enabled :: bool
  convert_enabled :: bool
  log_output :: "string list"
  status_label :: string
  message_boxes :: "(string \<times> string) list"
  workers :: "action list list"
  queue :: "event list"

definition init_ui :: app where
  "init_ui =
     \<lparr>directory_path = [], path_display = [], browse_enabled = True, convert_enabled = False,
      log_output = [], status_label = ''Ready.'', message_boxes = [], workers = [], queue = []\<rparr>"

definition browse_directory :: "app \<Rightarrow> string \<Rightarrow> app" where
  "browse_directory s directory =
     (if directory \<noteq> []
      then s\<lparr>directory_path := directory,
             path_display := directory,
             convert_enabled := True,
             log_output := [''Directory selected: '' @ directory],
             status_label := ''Directory selected. Click 'Start Conversion'.''\<rparr>
      else s\<lparr>directory_path := [],
             path_display := [],
             convert_enabled := False,
             log_output := log_output s @ [''No directory selected.''],
             status_label := ''Ready.''\<rparr>)"

definition start_conversion :: "os_env \<Rightarrow> app \<Rightarrow> app" where
  "start_conversion env s =
     (if directory_path s = []
      then s\<lparr>message_boxes :=
               message_boxes s @ [(''No Directory'', ''Please select a directory first.'')]\<rparr>
      else s\<lparr>browse_enabled := False,
             convert_enabled := False,
             log_output := [''Starting video conversion process...''],
             status_label := ''Conversion in progress...'',
             workers := workers s @ [trace (run env (directory_path s))]\<rparr>)"

definition update_log :: "app \<Rightarrow> string \<Rightarrow> app" where
  "update_log s message = s\<lparr>log_output := log_output s @ [message]\<rparr>"

definition on_conversion_finished :: "app \<Rightarrow> string \<Rightarrow> app" where
  "on_conversion_finished s message =
     (let s1 = update_log s message;
          s2 = s1\<lparr>browse_enabled := True\<rparr>;
          s3 = (if directory_path s2 \<noteq> [] then s2\<lparr>convert_enabled := True\<rparr> else s2)
      in s3\<lparr>status_label := ''Conversion complete.'',
            message_boxes := message_boxes s3 @ [(''Conversion Complete'', message)]\<rparr>)"

definition on_conversion_error :: "app \<Rightarrow> string \<Rightarrow> app" where
  "on_conversion_error s message =
     (let s1 = update_log s (''ERROR: '' @ message);
          s2 = s1\<lparr>browse_enabled := True\<rparr>;
          s3 = (if directory_path s2 \<noteq> [] then s2\<lparr>convert_enabled := True\<rparr> else s2)
      in s3\<lparr>status_label := ''Conversion failed.'',
            message_boxes := message_boxes s3 @ [(''Conversion Error'', message)]\<rparr>)"

text \<open>The three connections made in \<^verbatim>\<open>_start_conversion\<close>.\<close>

fun handle :: "app \<Rightarrow> event \<Rightarrow> app" where
  "handle s (progress_update m) = update_log s m"
| "handle s (conversion_finished m) = on_conversion_finished s m"
| "handle s (conversion_error m) = on_conversion_error s m"

text \<open>
  What can happen next: the user answers the directory dialog (the empty string stands for
  a cancelled dialog), the user clicks the start button, a running worker performs its
  next action, or the window handles the oldest queued signal. A disabled button does not
  deliver its click. A worker that has performed its last action has returned.
\<close>

datatype input = Browse string | ClickStart | WorkerStep nat | Dispatch

definition worker_step :: "app \<Rightarrow> nat \<Rightarrow> app" where
  "worker_step s n =
     (if n < length (workers s)
      then (case workers s ! n of
              [] \<Rightarrow> s\<lparr>workers := take n (workers s) @ drop (Suc n) (workers s)\<rparr>
            | a # as \<Rightarrow>
                (let q = (case a of Emit e \<Rightarrow> queue s @ [e] | _ \<Rightarrow> queue s);
                     ws = (if as = []
                           then take n (workers s) @ drop (Suc n) (workers s)
                           else (workers s)[n := as])
                 in s\<lparr>workers := ws, queue := q\<rparr>))
      else s)"

fun step :: "os_env \<Rightarrow> app \<Rightarrow> input \<Rightarrow> app" where
  "step env s (Browse directory) =
     (if browse_enabled s then browse_directory s directory else s)"
| "step env s ClickStart = (if convert_enabled s then start_conversion env s else s)"
| "step env s (WorkerStep n) = worker_step s n"
| "step env s Dispatch =
     (case queue s of [] \<Rightarrow> s | e # es \<Rightarrow> handle (s\<lparr>queue := es\<rparr>) e)"

definition exec :: "os_env \<Rightarrow> app \<Rightarrow> input list \<Rightarrow> app" where
  "exec env s inputs = foldl (step env) s inputs"

text \<open>A directory with two videos, where the converter fails on the first.\<close>

definition failing_first_env :: os_env where
  "failing_first_env =
     \<lparr>listdir = (\<lambda>d. [''a.mp4'', ''b.mp4'']),
      spawn = (\<lambda>t command. if t = 1 then Exited 1 (Some ''Invalid data'') else Exited 0 (Some []))\<rparr>"

section \<open>Facts about the string and path functions\<close>

lemma endswith_suffix: "endswith s suf \<longleftrightarrow> suffix suf s"
proof
  assume "endswith s suf"
  then have "s = take (length s - length suf) s @ suf"
    by (metis append_take_drop_id endswith_def)
  then show "suffix suf s" by (metis suffixI)
next
  assume "suffix suf s"
  then obtain zs where "s = zs @ suf" by (auto simp: suffix_def)
  then show "endswith s suf" by (simp add: endswith_def)
qed

lemma is_video_suffix:
  "is_video filename \<longleftrightarrow> (\<exists>e\<in>set video_extensions. suffix e (lower filename))"
  by (simp add: is_video_def endswith_any_def list_ex_iff endswith_suffix)

lemma first_pass_acc:
  "first_pass listing video_files total_videos =
     (video_files @ filter is_video listing, total_videos + length (filter is_video listing))"
  by (induction listing arbitrary: video_files total_videos) auto

lemma rfind_aux_absent: "c \<notin> set xs \<Longrightarrow> rfind_aux c xs i acc = acc"
  by (induction xs arbitrary: i acc) auto

lemma rfind_aux_last:
  "c \<notin> set ys \<Longrightarrow> rfind_aux c (xs @ c # ys) i acc = int (i + length xs)"
  by (induction xs arbitrary: i acc) (auto simp: rfind_aux_absent)

lemma rfind_aux_lower_bound: "- 1 \<le> acc \<Longrightarrow> - 1 \<le> rfind_aux c xs i acc"
  by (induction xs arbitrary: i acc) auto

lemma rfind_lower_bound: "- 1 \<le> rfind p c"
  by (simp add: rfind_def rfind_aux_lower_bound)


lemma rfind_last: "c \<notin> set ys \<Longrightarrow> rfind (xs @ c # ys) c = int (length xs)"
  by (simp add: rfind_def rfind_aux_last)


lemma splitext_leading_dot_only:
  assumes "extsep \<notin> set r"
  shows "splitext (extsep # r) = (extsep # r, [])"
proof -
  have d: "rfind (extsep # r) extsep = 0"
    using rfind_last [of extsep r "[]"] assms by simp
  have "skip_leading_dots (extsep # r) 0 0 = None"
    by (simp add: skip_leading_dots.simps)
  moreover have "- 1 \<le> rfind (extsep # r) sep" by (rule rfind_lower_bound)
  ultimately show ?thesis
    unfolding splitext_def splitext_generic_def Let_def d
    by (cases "rfind (extsep # r) sep = - 1") auto
qed









section \<open>Candidate selection and output names\<close>

text \<open>
  Claim C6. For every directory listing, the candidate set is exactly the entries whose
  lowercased name ends with one of the seven extensions .mp4, .mkv, .avi, .mov, .webm,
  .flv, .wmv, in the order of the listing, and the total count is the number of these
  entries: an entry that does not match is neither in the candidate set nor counted.
\<close>

theorem candidate_set_is_extension_filter:
  "first_pass listing [] 0 =
     (filter (\<lambda>name. \<exists>e\<in>set [''.mp4'', ''.mkv'', ''.avi'', ''.mov'', ''.webm'', ''.flv'', ''.wmv''].
                 suffix e (lower name)) listing,
      length (filter (\<lambda>name. \<exists>e\<in>set [''.mp4'', ''.mkv'', ''.avi'', ''.mov'', ''.webm'', ''.flv'', ''.wmv''].
                 suffix e (lower name)) listing))"
proof -
  have "is_video = (\<lambda>name. \<exists>e\<in>set [''.mp4'', ''.mkv'', ''.avi'', ''.mov'', ''.webm'', ''.flv'', ''.wmv''].
                 suffix e (lower name))"
    unfolding is_video_suffix fun_eq_iff video_extensions_def by simp
  then show ?thesis by (simp add: first_pass_acc)
qed

theorem candidate_set_is_extension_filter_witness:
  "first_pass [''a.mkv'', ''readme.md'', ''B.WebM'', ''mp4'', ''c.avi.bak''] [] 0 =
     ([''a.mkv'', ''B.WebM''], 2)"
proof -
  have matching:
    "filter (\<lambda>name. \<exists>e\<in>set [''.mp4'', ''.mkv'', ''.avi'', ''.mov'', ''.webm'', ''.flv'', ''.wmv''].
                 suffix e (lower name)) [''a.mkv'', ''readme.md'', ''B.WebM'', ''mp4'', ''c.avi.bak'']
     = [''a.mkv'', ''B.WebM'']"
    by code_simp
  from candidate_set_is_extension_filter
         [of "[''a.mkv'', ''readme.md'', ''B.WebM'', ''mp4'', ''c.avi.bak'']", unfolded matching]
  show ?thesis by simp
qed




text \<open>
  Claim C9. Every directory entry whose name starts with a dot, contains no further dot and
  ends (lowercased) with a recognised extension is selected as a candidate, and its derived
  output name is the whole original name with .gif appended: the extension is not replaced.
\<close>

theorem dot_only_name_keeps_extension:
  assumes "filename = CHR ''.'' # rest"
    and "CHR ''.'' \<notin> set rest"
    and "\<exists>e\<in>set video_extensions. suffix e (lower filename)"
    and "filename \<in> set listing"
  shows "filename \<in> set (fst (first_pass listing [] 0))
     \<and> output_filename filename = filename @ ''.gif''"
proof -
  have "is_video filename" using assms(3) by (simp add: is_video_suffix)
  with assms(4) have "filename \<in> set (fst (first_pass listing [] 0))"
    by (simp add: first_pass_acc)
  moreover have "splitext filename = (filename, [])"
    using splitext_leading_dot_only [of rest] assms(1,2) by (simp add: extsep_def)
  ultimately show ?thesis by (simp add: output_filename_def)
qed

theorem dot_only_name_keeps_extension_witness:
  "''.mp4'' \<in> set (fst (first_pass [''x.txt'', ''.mp4''] [] 0))
     \<and> output_filename ''.mp4'' = ''.mp4.gif''"
proof -
  have h1: "''.mp4'' = CHR ''.'' # ''mp4''" by simp
  have h2: "CHR ''.'' \<notin> set ''mp4''" by simp
  have "is_video ''.mp4''" by code_simp
  then have h3: "\<exists>e\<in>set video_extensions. suffix e (lower ''.mp4'')"
    by (simp only: is_video_suffix)
  have h4: "''.mp4'' \<in> set [''x.txt'', ''.mp4'']" by simp
  from dot_only_name_keeps_extension [OF h1 h2 h3 h4] show ?thesis by simp
qed

section \<open>Facts about the conversion loop\<close>

lemma events_append: "events (xs @ ys) = events xs @ events ys"
  by (induction xs rule: events.induct) auto

lemma conversions_append: "conversions (xs @ ys) = conversions xs @ conversions ys"
  by (induction xs rule: conversions.induct) auto

lemma ffmpeg_command_not_version: "ffmpeg_command d f \<noteq> version_command"
  by (simp add: ffmpeg_command_def version_command_def)

lemma returns_status_cases:
  "returns_status out \<longleftrightarrow> (\<exists>rc err. out = Exited rc (Some err))"
  by (cases out rule: returns_status.cases) simp_all

lemma convert_file_returns:
  assumes "returns_status (file_outcome env d (i, f))"
  shows "convert_file env d tot i f c =
     (file_actions env d tot (i, f),
      (if succeeded (file_outcome env d (i, f)) then c + 1 else c),
      Proceed)"
proof -
  from assms obtain rc err where "file_outcome env d (i, f) = Exited rc (Some err)"
    by (auto simp: returns_status_cases)
  then show ?thesis
    by (simp add: convert_file_def file_actions_def file_outcome_def subprocess_run_def Let_def)
qed

lemma convert_file_not_found:
  assumes "file_outcome env d (i, f) = NotFound"
  shows "convert_file env d tot i f c = (file_actions env d tot (i, f), c, Return)"
  using assms
  by (simp add: convert_file_def file_actions_def file_outcome_def subprocess_run_def Let_def)

lemma file_actions_conversions:
  "conversions (file_actions env d tot item) = [ffmpeg_command d (snd item)]"
  by (simp add: file_actions_def convert_file_def subprocess_run_def Let_def
        ffmpeg_command_not_version split: proc_outcome.split option.split)

lemma file_actions_no_finished:
  "filter is_finished (events (file_actions env d tot item)) = []"
  by (simp add: file_actions_def convert_file_def subprocess_run_def Let_def
           split: proc_outcome.split option.split)


lemma file_actions_not_found:
  assumes "file_outcome env d (i, f) = NotFound"
  shows "\<exists>started. file_actions env d tot (i, f) =
           started @ [Emit (conversion_error not_found_message)]"
  using assms
  by (simp add: file_actions_def convert_file_def subprocess_run_def Let_def file_outcome_def
        not_found_message_def)

lemma concat_conversions:
  "conversions (concat (map (file_actions env d tot) items)) =
     map (\<lambda>item. ffmpeg_command d (snd item)) items"
  by (induction items) (simp_all add: conversions_append file_actions_conversions)

lemma concat_no_finished:
  "filter is_finished (events (concat (map (file_actions env d tot) items))) = []"
  by (induction items) (simp_all add: events_append file_actions_no_finished)

lemma fused_conversions:
  "conversions (concat (map (file_actions env d tot \<circ> g) xs)) =
     map (\<lambda>i. ffmpeg_command d (snd (g i))) xs"
  using concat_conversions [of env d tot "map g xs"] by (simp add: comp_def)

lemma fused_no_finished:
  "filter is_finished (events (concat (map (file_actions env d tot \<circ> g) xs))) = []"
  using concat_no_finished [of env d tot "map g xs"] by simp

lemma convert_loop_exhausts:
  assumes "\<forall>item\<in>set items. returns_status (file_outcome env d item)"
  shows "convert_loop env d tot items c =
           (concat (map (file_actions env d tot) items),
            c + length (filter (\<lambda>item. succeeded (file_outcome env d item)) items),
            Proceed)"
  using assms
proof (induction items arbitrary: c)
  case Nil
  show ?case by simp
next
  case (Cons item items)
  obtain i f where item: "item = (i, f)" by (cases item)
  have here: "returns_status (file_outcome env d (i, f))"
    using Cons.prems by (simp add: item)
  have rest: "\<forall>it\<in>set items. returns_status (file_outcome env d it)"
    using Cons.prems by simp
  show ?case
    by (simp add: item convert_file_returns [OF here] Cons.IH [OF rest])
qed

lemma convert_loop_aborts:
  assumes "\<forall>item\<in>set items. returns_status (file_outcome env d item)"
    and "file_outcome env d (k, f) = NotFound"
  shows "convert_loop env d tot (items @ (k, f) # rest) c =
           (concat (map (file_actions env d tot) items) @ file_actions env d tot (k, f),
            c + length (filter (\<lambda>item. succeeded (file_outcome env d item)) items),
            Return)"
  using assms(1)
proof (induction items arbitrary: c)
  case Nil
  show ?case by (simp add: convert_file_not_found [OF assms(2)])
next
  case (Cons item items)
  obtain i g where item: "item = (i, g)" by (cases item)
  have here: "returns_status (file_outcome env d (i, g))"
    using Cons.prems by (simp add: item)
  have rest: "\<forall>it\<in>set items. returns_status (file_outcome env d it)"
    using Cons.prems by simp
  show ?case
    by (simp add: item convert_file_returns [OF here] Cons.IH [OF rest])
qed

lemma enumerate_as_map: "enumerate 0 xs = map (\<lambda>i. (i, xs ! i)) [0..<length xs]"
  by (rule nth_equalityI) (simp_all add: nth_enumerate_eq)

lemma first_pass_candidates:
  "first_pass (listdir env d) [] 0 = (candidates env d, length (candidates env d))"
  by (simp add: candidates_def first_pass_acc)

lemma file_outcome_enumerated:
  "file_outcome env d (i, candidates env d ! i) = conversion_outcome env d i"
  by (simp add: file_outcome_def conversion_outcome_def)

lemma enumerated_no_abort:
  assumes "\<forall>i<n. returns_status (conversion_outcome env d i)"
    and "n \<le> length (candidates env d)"
  shows "\<forall>item\<in>set (map (\<lambda>i. (i, candidates env d ! i)) [0..<n]).
           returns_status (file_outcome env d item)"
  using assms by (auto simp: file_outcome_enumerated)

lemma enumerated_succeeded:
  "length (filter (\<lambda>item. succeeded (file_outcome env d item))
             (map (\<lambda>i. (i, candidates env d ! i)) [0..<n])) =
   length (filter (\<lambda>i. succeeded (conversion_outcome env d i)) [0..<n])"
  by (simp add: filter_map comp_def file_outcome_enumerated)

text \<open>The run over a candidate list that is not empty, after a successful version query.\<close>

lemma run_nonempty:
  assumes "is_ffmpeg_installed env = Inr True" and "candidates env d \<noteq> []"
    and "convert_loop env d (length (candidates env d)) (enumerate 0 (candidates env d)) 0 =
           (tr, c, fl)"
  shows "run env d =
     \<lparr>trace =
        [Subprocess version_command, Listdir d,
         Emit (progress_update (''Found '' @ str_nat (length (candidates env d)) @
                 '' video(s). Starting conversion...''))] @
        tr @
        (case fl of
           Proceed \<Rightarrow>
             [Emit (conversion_finished (completed_message c (length (candidates env d))))]
         | Return \<Rightarrow> []
         | Raise e \<Rightarrow> []),
      counters = Some (c, length (candidates env d)),
      uncaught = (case fl of Proceed \<Rightarrow> None | Return \<Rightarrow> None | Raise e \<Rightarrow> Some e)\<rparr>"
  using assms
  by (simp add: run_def first_pass_candidates completed_message_def split: flow.split)

lemma run_exhausts:
  assumes "is_ffmpeg_installed env = Inr True" and "candidates env d \<noteq> []"
    and "\<forall>i<length (candidates env d). returns_status (conversion_outcome env d i)"
  shows "run env d =
     \<lparr>trace =
        [Subprocess version_command, Listdir d,
         Emit (progress_update (''Found '' @ str_nat (length (candidates env d)) @
                 '' video(s). Starting conversion...''))] @
        concat (map (file_actions env d (length (candidates env d)))
                  (map (\<lambda>i. (i, candidates env d ! i)) [0..<length (candidates env d)])) @
        [Emit (conversion_finished
                 (completed_message (succeeded_count env d) (length (candidates env d))))],
      counters = Some (succeeded_count env d, length (candidates env d)),
      uncaught = None\<rparr>"
proof -
  let ?items = "map (\<lambda>i. (i, candidates env d ! i)) [0..<length (candidates env d)]"
  have "\<forall>item\<in>set ?items. returns_status (file_outcome env d item)"
    using assms(3) by (rule enumerated_no_abort) simp
  then have "convert_loop env d (length (candidates env d)) ?items 0 =
      (concat (map (file_actions env d (length (candidates env d))) ?items),
       0 + length (filter (\<lambda>item. succeeded (file_outcome env d item)) ?items), Proceed)"
    by (rule convert_loop_exhausts)
  then have "convert_loop env d (length (candidates env d)) (enumerate 0 (candidates env d)) 0 =
      (concat (map (file_actions env d (length (candidates env d))) ?items),
       succeeded_count env d, Proceed)"
    by (simp only: enumerate_as_map enumerated_succeeded succeeded_count_def add_0)
  from run_nonempty [OF assms(1,2) this] show ?thesis by simp
qed

text \<open>
  The loop runs to its end exactly when every converter process of the run runs to an
  exit status with output that decodes as text.
\<close>

lemma convert_file_proceeds_iff:
  "snd (snd (convert_file env d tot i f c)) = Proceed \<longleftrightarrow>
     returns_status (file_outcome env d (i, f))"
  by (simp add: convert_file_def file_outcome_def subprocess_run_def Let_def
        split: proc_outcome.split option.split)

lemma convert_loop_proceeds_iff:
  "snd (snd (convert_loop env d tot items c)) = Proceed \<longleftrightarrow>
     (\<forall>item\<in>set items. returns_status (file_outcome env d item))"
proof (induction items arbitrary: c)
  case Nil
  show ?case by simp
next
  case (Cons item items)
  obtain i f where item: "item = (i, f)" by (cases item)
  obtain acts c' fl where cf: "convert_file env d tot i f c = (acts, c', fl)"
    by (cases "convert_file env d tot i f c")
  have here: "fl = Proceed \<longleftrightarrow> returns_status (file_outcome env d (i, f))"
    using convert_file_proceeds_iff [of env d tot i f c] by (simp add: cf)
  show ?case
  proof (cases fl)
    case Proceed
    obtain tr c'' fl' where lp: "convert_loop env d tot items c' = (tr, c'', fl')"
      by (cases "convert_loop env d tot items c'")
    have "fl' = Proceed \<longleftrightarrow> (\<forall>it\<in>set items. returns_status (file_outcome env d it))"
      using Cons.IH [of c'] by (simp add: lp)
    with here Proceed show ?thesis by (simp add: item cf lp)
  next
    case Return
    with here show ?thesis by (simp add: item cf)
  next
    case (Raise e)
    with here show ?thesis by (simp add: item cf)
  qed
qed

section \<open>Runs of the worker\<close>




text \<open>
  Claim C7. For every run in which the preflight check reports the converter unavailable,
  the worker emits exactly one event, an error event that describes the missing
  dependency, lists no directory, starts no conversion process, and returns.
\<close>

theorem preflight_failure_run:
  assumes "is_ffmpeg_installed env = Inr False"
  shows "trace (run env d) =
           [Subprocess version_command, Emit (conversion_error not_installed_message)]
     \<and> events (trace (run env d)) = [conversion_error not_installed_message]
     \<and> length (filter is_error (events (trace (run env d)))) = 1
     \<and> (\<forall>p. Listdir p \<notin> set (trace (run env d)))
     \<and> conversions (trace (run env d)) = []"
  using assms by (simp add: run_def not_installed_message_def)

theorem preflight_failure_run_witness:
  "is_ffmpeg_installed \<lparr>listdir = (\<lambda>d. [''a.mp4'']), spawn = (\<lambda>t c. NotFound)\<rparr> = Inr False
   \<and> events (trace (run \<lparr>listdir = (\<lambda>d. [''a.mp4'']), spawn = (\<lambda>t c. NotFound)\<rparr> ''/v'')) =
       [conversion_error not_installed_message]
   \<and> conversions (trace (run \<lparr>listdir = (\<lambda>d. [''a.mp4'']), spawn = (\<lambda>t c. NotFound)\<rparr> ''/v'')) = []"
proof -
  have h: "is_ffmpeg_installed \<lparr>listdir = (\<lambda>d. [''a.mp4'']), spawn = (\<lambda>t c. NotFound)\<rparr> = Inr False"
    by (simp add: is_ffmpeg_installed_def subprocess_run_def)
  from preflight_failure_run [OF h, of "''/v''"] h show ?thesis by blast
qed

text \<open>
  Claim C4. For every run whose candidate set is empty (the version query having
  succeeded), the worker emits exactly one progress event and exactly one finished event
  and nothing else, the converted count and the total are both 0 when the finished event
  is emitted, and no conversion process is started.
\<close>

theorem empty_candidate_set_run:
  assumes "is_ffmpeg_installed env = Inr True" and "candidates env d = []"
  shows "events (trace (run env d)) =
           [progress_update ''No video files found in the selected directory.'',
            conversion_finished ''Conversion process completed (no videos to convert).'']
     \<and> length (filter is_progress (events (trace (run env d)))) = 1
     \<and> length (filter is_finished (events (trace (run env d)))) = 1
     \<and> counters (run env d) = Some (0, 0)
     \<and> conversions (trace (run env d)) = []"
proof -
  have "first_pass (listdir env d) [] 0 = ([], 0)"
    using assms(2) by (simp add: first_pass_candidates)
  with assms(1) show ?thesis by (simp add: run_def)
qed

theorem empty_candidate_set_run_witness:
  "is_ffmpeg_installed
     \<lparr>listdir = (\<lambda>d. [''notes.txt'']), spawn = (\<lambda>t c. Exited 0 (Some []))\<rparr> = Inr True
   \<and> candidates \<lparr>listdir = (\<lambda>d. [''notes.txt'']), spawn = (\<lambda>t c. Exited 0 (Some []))\<rparr> ''/v'' = []
   \<and> counters (run \<lparr>listdir = (\<lambda>d. [''notes.txt'']), spawn = (\<lambda>t c. Exited 0 (Some []))\<rparr> ''/v'') =
       Some (0, 0)
   \<and> length (filter is_finished
       (events (trace (run \<lparr>listdir = (\<lambda>d. [''notes.txt'']),
                            spawn = (\<lambda>t c. Exited 0 (Some []))\<rparr> ''/v'')))) = 1"
proof -
  have h1: "is_ffmpeg_installed
      \<lparr>listdir = (\<lambda>d. [''notes.txt'']), spawn = (\<lambda>t c. Exited 0 (Some []))\<rparr> = Inr True"
    by (simp add: is_ffmpeg_installed_def subprocess_run_def)
  have h2: "candidates \<lparr>listdir = (\<lambda>d. [''notes.txt'']),
                        spawn = (\<lambda>t c. Exited 0 (Some []))\<rparr> ''/v'' = []"
    by code_simp
  from empty_candidate_set_run [OF h1 h2] h1 h2 show ?thesis by blast
qed

lemma upt_split_at: "k < n \<Longrightarrow> [0..<n] = [0..<k] @ k # [Suc k..<n]"
  by (metis less_imp_le_nat upt_add_eq_append upt_conv_Cons zero_le le_add_diff_inverse plus_nat.add_0)

lemma all_return_status:
  "\<forall>i<n. \<exists>rc err. conversion_outcome env d i = Exited rc (Some err) \<Longrightarrow>
   \<forall>i<n. returns_status (conversion_outcome env d i)"
  by (simp add: returns_status_cases)

text \<open>
  Claim C5. For every run that exhausts a candidate set that is not empty (every
  converter process of the run runs to an exit status, with output that decodes as text;
  by \<open>convert_loop_proceeds_iff\<close> these are the runs whose loop runs to its end),
  the worker emits exactly one finished event, as its last action, with the text
  "Conversion process completed. Converted X of Y videos." where X is the number of
  candidates whose converter process exited with status zero and Y is the number of
  candidates; X and Y are also the final values of the two counters. When all N
  candidates succeed, X = Y = N.
\<close>

theorem exhausted_run_finished_event:
  assumes "is_ffmpeg_installed env = Inr True"
    and "candidates env d \<noteq> []"
    and "\<forall>i<length (candidates env d).
           \<exists>rc err. conversion_outcome env d i = Exited rc (Some err)"
  shows "filter is_finished (events (trace (run env d))) =
           [conversion_finished
              (''Conversion process completed. Converted '' @
               str_nat (length (filter (\<lambda>i. succeeded (conversion_outcome env d i))
                                  [0..<length (candidates env d)])) @
               '' of '' @ str_nat (length (candidates env d)) @ '' videos.'')]
     \<and> last (trace (run env d)) =
           Emit (conversion_finished
              (''Conversion process completed. Converted '' @
               str_nat (length (filter (\<lambda>i. succeeded (conversion_outcome env d i))
                                  [0..<length (candidates env d)])) @
               '' of '' @ str_nat (length (candidates env d)) @ '' videos.''))
     \<and> counters (run env d) =
           Some (length (filter (\<lambda>i. succeeded (conversion_outcome env d i))
                           [0..<length (candidates env d)]),
                 length (candidates env d))
     \<and> ((\<forall>i<length (candidates env d). succeeded (conversion_outcome env d i)) \<longrightarrow>
          length (filter (\<lambda>i. succeeded (conversion_outcome env d i))
                    [0..<length (candidates env d)]) = length (candidates env d))"
proof -
  note r = run_exhausts [OF assms(1,2) all_return_status [OF assms(3)]]
  have fin: "filter is_finished (events (trace (run env d))) =
      [conversion_finished
         (completed_message (succeeded_count env d) (length (candidates env d)))]"
    by (simp add: r events_append fused_no_finished)
  have lst: "last (trace (run env d)) =
      Emit (conversion_finished
         (completed_message (succeeded_count env d) (length (candidates env d))))"
    by (simp add: r)
  have cnt: "counters (run env d) = Some (succeeded_count env d, length (candidates env d))"
    by (simp add: r)
  have all: "(\<forall>i<length (candidates env d). succeeded (conversion_outcome env d i)) \<longrightarrow>
      succeeded_count env d = length (candidates env d)"
    by (simp add: succeeded_count_def)
  from fin lst cnt all show ?thesis
    unfolding succeeded_count_def completed_message_def by blast
qed

theorem exhausted_run_finished_event_witness:
  "filter is_finished (events (trace (run all_succeed_env ''/v''))) =
     [conversion_finished ''Conversion process completed. Converted 2 of 2 videos.'']
   \<and> counters (run all_succeed_env ''/v'') = Some (2, 2)"
proof -
  have h1: "is_ffmpeg_installed all_succeed_env = Inr True" by code_simp
  have h2: "candidates all_succeed_env ''/v'' \<noteq> []" by code_simp
  have h3: "\<forall>i<length (candidates all_succeed_env ''/v'').
              \<exists>rc err. conversion_outcome all_succeed_env ''/v'' i = Exited rc (Some err)"
    by (simp add: conversion_outcome_def all_succeed_env_def)
  have n: "length (candidates all_succeed_env ''/v'') = 2" by code_simp
  have x: "length (filter (\<lambda>i. succeeded (conversion_outcome all_succeed_env ''/v'' i))
                     [0..<length (candidates all_succeed_env ''/v'')]) = 2"
    unfolding n by (simp add: conversion_outcome_def all_succeed_env_def)
  have s: "str_nat 2 = ''2''" by code_simp
  note t = exhausted_run_finished_event [OF h1 h2 h3]
  note t1 = t [unfolded x]
  note t2 = t1 [unfolded n]
  from t2 [unfolded s append.simps] show ?thesis
    by (elim conjE) (intro conjI, assumption+)
qed




text \<open>
  Claim C3. For every run in which, after a successful preflight, starting the converter
  for some candidate finds no program to run (k being the first such candidate, the
  processes before it having run to their exit status), the worker emits as its last
  action an error event saying that the FFmpeg command was not found, and returns at
  once: the conversion processes started are those of the candidates up to k and no
  other, and no finished event is emitted.
\<close>

theorem converter_vanishing_aborts_run:
  assumes "is_ffmpeg_installed env = Inr True"
    and "k < length (candidates env d)"
    and "conversion_outcome env d k = NotFound"
    and "\<forall>i<k. \<exists>rc err. conversion_outcome env d i = Exited rc (Some err)"
  shows "last (trace (run env d)) =
           Emit (conversion_error
             ''FFmpeg command not found. Please ensure FFmpeg is installed and in your PATH.'')
     \<and> filter is_finished (events (trace (run env d))) = []
     \<and> conversions (trace (run env d)) =
           map (\<lambda>i. ffmpeg_command d (candidates env d ! i)) [0..<Suc k]"
proof -
  let ?n = "length (candidates env d)"
  let ?g = "\<lambda>i. (i, candidates env d ! i)"
  let ?fa = "file_actions env d ?n"
  have ne: "candidates env d \<noteq> []" using assms(2) by auto
  have nf: "file_outcome env d (k, candidates env d ! k) = NotFound"
    using assms(3) by (simp add: file_outcome_enumerated)
  have pre: "\<forall>item\<in>set (map ?g [0..<k]). returns_status (file_outcome env d item)"
    using all_return_status [OF assms(4)] by (rule enumerated_no_abort) (use assms(2) in simp)
  have items: "enumerate 0 (candidates env d) =
      map ?g [0..<k] @ (k, candidates env d ! k) # map ?g [Suc k..<?n]"
    by (simp add: enumerate_as_map upt_split_at [OF assms(2)] del: upt_Suc)
  have loop: "convert_loop env d ?n (enumerate 0 (candidates env d)) 0 =
      (concat (map ?fa (map ?g [0..<k])) @ ?fa (k, candidates env d ! k),
       0 + length (filter (\<lambda>item. succeeded (file_outcome env d item)) (map ?g [0..<k])),
       Return)"
    unfolding items using pre nf by (rule convert_loop_aborts)
  from file_actions_not_found [OF nf, of ?n]
  obtain started where st:
    "?fa (k, candidates env d ! k) = started @ [Emit (conversion_error not_found_message)]"
    by blast
  note r = run_nonempty [OF assms(1) ne loop]
  have lst: "last (trace (run env d)) = Emit (conversion_error not_found_message)"
    by (simp add: r st)
  have nofin: "filter is_finished (events (trace (run env d))) = []"
    by (simp add: r events_append fused_no_finished file_actions_no_finished)
  have conv: "conversions (trace (run env d)) =
      map (\<lambda>i. ffmpeg_command d (candidates env d ! i)) [0..<Suc k]"
    by (simp add: r conversions_append fused_conversions file_actions_conversions)
  from lst nofin conv show ?thesis unfolding not_found_message_def by blast
qed

theorem converter_vanishing_aborts_run_witness:
  "last (trace (run vanishing_env ''/v'')) =
     Emit (conversion_error
       ''FFmpeg command not found. Please ensure FFmpeg is installed and in your PATH.'')
   \<and> filter is_finished (events (trace (run vanishing_env ''/v''))) = []
   \<and> conversions (trace (run vanishing_env ''/v'')) =
       [ffmpeg_command ''/v'' ''a.mp4'', ffmpeg_command ''/v'' ''b.avi'']"
proof -
  have h1: "is_ffmpeg_installed vanishing_env = Inr True" by code_simp
  have c: "candidates vanishing_env ''/v'' = [''a.mp4'', ''b.avi'', ''c.mov'']" by code_simp
  have h2: "1 < length (candidates vanishing_env ''/v'')" by (simp add: c)
  have h3: "conversion_outcome vanishing_env ''/v'' 1 = NotFound"
    by (simp add: conversion_outcome_def vanishing_env_def)
  have h4: "\<forall>i<1. \<exists>rc err. conversion_outcome vanishing_env ''/v'' i = Exited rc (Some err)"
    by (simp add: conversion_outcome_def vanishing_env_def)
  have u: "map (\<lambda>i. ffmpeg_command ''/v'' (candidates vanishing_env ''/v'' ! i)) [0..<Suc 1] =
      [ffmpeg_command ''/v'' ''a.mp4'', ffmpeg_command ''/v'' ''b.avi'']"
    by (simp add: c upt_rec)
  note t = converter_vanishing_aborts_run [OF h1 h2 h3 h4]
  from t show ?thesis unfolding u by blast
qed

section \<open>The start control while a worker runs\<close>

lemma worker_step_controls:
  "convert_enabled (worker_step s n) = convert_enabled s
   \<and> directory_path (worker_step s n) = directory_path s"
  by (simp add: worker_step_def Let_def split: list.split)

lemma handle_controls:
  "convert_enabled s \<longrightarrow> directory_path s \<noteq> [] \<Longrightarrow>
   convert_enabled (handle s e) \<longrightarrow> directory_path (handle s e) \<noteq> []"
  by (cases e)
     (auto simp: update_log_def on_conversion_finished_def on_conversion_error_def Let_def)

lemma step_keeps_directory:
  assumes "convert_enabled s \<longrightarrow> directory_path s \<noteq> []"
  shows "convert_enabled (step env s i) \<longrightarrow> directory_path (step env s i) \<noteq> []"
proof (cases i)
  case (Browse directory)
  with assms show ?thesis by (simp add: browse_directory_def)
next
  case ClickStart
  with assms show ?thesis by (simp add: start_conversion_def)
next
  case (WorkerStep n)
  with assms show ?thesis by (simp add: worker_step_controls)
next
  case Dispatch
  show ?thesis
  proof (cases "queue s")
    case Nil
    with Dispatch assms show ?thesis by simp
  next
    case (Cons e es)
    have "convert_enabled (s\<lparr>queue := es\<rparr>) \<longrightarrow> directory_path (s\<lparr>queue := es\<rparr>) \<noteq> []"
      using assms by simp
    from handle_controls [OF this] Dispatch Cons show ?thesis by simp
  qed
qed

lemma exec_keeps_directory:
  "convert_enabled s \<longrightarrow> directory_path s \<noteq> [] \<Longrightarrow>
   convert_enabled (exec env s inputs) \<longrightarrow> directory_path (exec env s inputs) \<noteq> []"
  unfolding exec_def
  by (induction inputs arbitrary: s) (simp_all add: step_keeps_directory)

text \<open>
  Claim C1 says that the start control is disabled for as long as a worker is active, so
  that no second worker can be started while one is in flight. The part about the stored
  directory holds in every reachable state (\<open>exec_keeps_directory\<close>). The part about the
  running worker does not hold on the code: in a directory with the videos a.mp4 and
  b.mp4 where the converter fails on a.mp4, the worker emits an error event for a.mp4
  and goes on; once the window has handled that event the start control is enabled again
  although the worker still has the conversion of b.mp4 before it, and a click on the
  start control then starts a second worker beside the first.
\<close>

theorem start_control_enabled_during_run:
  "(let s = exec failing_first_env init_ui
              ([Browse ''/v'', ClickStart] @ replicate 7 (WorkerStep 0) @ replicate 4 Dispatch)
    in convert_enabled s
     \<and> directory_path s = ''/v''
     \<and> length (workers s) = 1
     \<and> conversions (hd (workers s)) = [ffmpeg_command ''/v'' ''b.mp4'']
     \<and> length (workers (step failing_first_env s ClickStart)) = 2)"
  by code_simp


end
